theory Spec2Isabelle
  imports Complex_Main
begin

section \<open>The neural-network visualizer\<close>

text \<open>
  The repository holds one React component, \<^verbatim>\<open>NeuralNetworkVisualizer\<close>, in two files:
  \<^verbatim>\<open>src/components/NeuralNetworkVisualizer.tsx\<close> and a second file that adds a
  diagram name (a fifth input, a \<^verbatim>\<open>text\<close> element above the diagram, 30 pixels
  reserved for it). The two files agree everywhere else, so the embedding is one set of
  definitions with a parameter that says which file is meant.

  Conventions of the embedding.
  \<^item> A JavaScript string is a \<open>string\<close>; each \<open>char\<close> stands for one code unit below
    256. Strings with other code units are outside the model.
  \<^item> The numbers held by the configuration are results of \<^verbatim>\<open>parseInt\<close> and the
    literals 3, 4 and 2, so they are integers; they are modelled by \<open>int\<close>, exactly
    (the rounding of integers beyond \<open>2^53\<close> to binary64 is not modelled).
    Coordinates are rationals, because the source divides by 2.
  \<^item> The component's \<^verbatim>\<open>useState\<close> cells are the fields of a record, and the event
    handler is a function from the state and the event to the next state.
\<close>

subsection \<open>The JavaScript library functions the handler calls\<close>

text \<open>
  White space and line terminators of ECMAScript, as far as they are code units below
  256: TAB, LF, VT, FF, CR, SP and NBSP.
\<close>

definition isWhiteSpace :: "char \<Rightarrow> bool" where
  "isWhiteSpace c = (of_char c \<in> {9, 10, 11, 12, 13, 32, 160 :: nat})"

text \<open>\<^verbatim>\<open>String.prototype.trimStart\<close> and \<^verbatim>\<open>String.prototype.trim\<close>.\<close>

definition trimStart :: "string \<Rightarrow> string" where
  "trimStart s = dropWhile isWhiteSpace s"

definition trim :: "string \<Rightarrow> string" where
  "trim s = rev (dropWhile isWhiteSpace (rev (dropWhile isWhiteSpace s)))"

text \<open>
  \<^verbatim>\<open>value.split(',')\<close>: the segments between the commas, in order. The empty string
  gives one empty segment, and \<open>n\<close> commas give \<open>n + 1\<close> segments. The recursive call
  never returns the empty list, so the first case of the \<open>case\<close> is never taken.
\<close>

fun split :: "string \<Rightarrow> string list" where
  "split [] = [[]]"
| "split (c # cs) =
     (if c = CHR '','' then [] # split cs
      else (case split cs of [] \<Rightarrow> [[c]] | w # ws \<Rightarrow> (c # w) # ws))"

text \<open>
  The result of \<^verbatim>\<open>parseInt\<close> is \<^verbatim>\<open>NaN\<close> or an integer.
\<close>

datatype number = NaN | Num int

definition isNaN :: "number \<Rightarrow> bool" where
  "isNaN n = (case n of NaN \<Rightarrow> True | Num _ \<Rightarrow> False)"

text \<open>The value of a code unit as a digit of radix \<open>R\<close> (10 or 16 here), if it is one.\<close>

definition digitValue :: "nat \<Rightarrow> char \<Rightarrow> nat option" where
  "digitValue R c =
     (let u = (of_char c :: nat);
          d = (if 48 \<le> u \<and> u \<le> 57 then Some (u - 48)
               else if 97 \<le> u \<and> u \<le> 122 then Some (u - 87)
               else if 65 \<le> u \<and> u \<le> 90 then Some (u - 55)
               else None)
      in case d of None \<Rightarrow> None | Some v \<Rightarrow> if v < R then Some v else None)"

definition isRadixDigit :: "nat \<Rightarrow> char \<Rightarrow> bool" where
  "isRadixDigit R c = (digitValue R c \<noteq> None)"

definition mathInt :: "nat \<Rightarrow> string \<Rightarrow> int" where
  "mathInt R Z = foldl (\<lambda>a c. a * int R + int (the (digitValue R c))) 0 Z"

text \<open>
  \<^verbatim>\<open>parseInt(string)\<close> with no radix argument (ECMAScript, 19.2.5): leading white
  space is skipped, one sign is read, the prefix \<^verbatim>\<open>0x\<close> or \<^verbatim>\<open>0X\<close> selects radix
  16 and anything else radix 10, and the longest run of digits of that radix is the
  number; no digit means \<^verbatim>\<open>NaN\<close>. What follows the digits is ignored.
\<close>

definition parseInt :: "string \<Rightarrow> number" where
  "parseInt string =
     (let S = trimStart string;
          sign = (if S \<noteq> [] \<and> hd S = CHR ''-'' then - 1 else 1 :: int);
          S = (if S \<noteq> [] \<and> (hd S = CHR ''+'' \<or> hd S = CHR ''-'') then tl S else S);
          hex = (2 \<le> length S \<and> (take 2 S = ''0x'' \<or> take 2 S = ''0X''));
          R = (if hex then 16 else 10);
          S = (if hex then drop 2 S else S);
          Z = takeWhile (isRadixDigit R) S
      in if Z = [] then NaN else Num (sign * mathInt R Z))"

text \<open>
  The result of \<^verbatim>\<open>parseFloat\<close>: \<^verbatim>\<open>NaN\<close>, a decimal value or an infinity. The
  decimal value is kept exactly, as a rational (its rounding to binary64 is not
  modelled).
\<close>

datatype float = FNaN | Fin rat | PosInfinity | NegInfinity

definition isDecimalDigit :: "char \<Rightarrow> bool" where
  "isDecimalDigit c = (48 \<le> (of_char c :: nat) \<and> (of_char c :: nat) \<le> 57)"

definition decimalValue :: "string \<Rightarrow> nat" where
  "decimalValue D = foldl (\<lambda>a c. a * 10 + (of_char c - 48)) 0 D"

text \<open>
  The value of the \<^verbatim>\<open>ExponentPart\<close> at the head of a string: \<^verbatim>\<open>e\<close> or \<^verbatim>\<open>E\<close>, an
  optional sign and at least one digit. Without one the exponent is 0.
\<close>

definition exponentPart :: "string \<Rightarrow> int" where
  "exponentPart S =
     (if S \<noteq> [] \<and> (hd S = CHR ''e'' \<or> hd S = CHR ''E'') then
        (let T = tl S;
             neg = (T \<noteq> [] \<and> hd T = CHR ''-'');
             T = (if T \<noteq> [] \<and> (hd T = CHR ''+'' \<or> hd T = CHR ''-'') then tl T else T);
             D = takeWhile isDecimalDigit T
         in if D = [] then 0
            else if neg then - int (decimalValue D) else int (decimalValue D))
      else 0)"

definition scale10 :: "rat \<Rightarrow> int \<Rightarrow> rat" where
  "scale10 m e = (if 0 \<le> e then m * 10 ^ nat e else m / 10 ^ nat (- e))"

text \<open>
  \<^verbatim>\<open>parseFloat(string)\<close> (ECMAScript, 19.2.4): leading white space is skipped and the
  longest prefix that is a \<^verbatim>\<open>StrDecimalLiteral\<close> is the number: a sign, then
  \<^verbatim>\<open>Infinity\<close> or digits with an optional fraction and exponent.
\<close>

definition parseFloat :: "string \<Rightarrow> float" where
  "parseFloat string =
     (let S = trimStart string;
          neg = (S \<noteq> [] \<and> hd S = CHR ''-'');
          S = (if S \<noteq> [] \<and> (hd S = CHR ''+'' \<or> hd S = CHR ''-'') then tl S else S)
      in if take 8 S = ''Infinity'' then (if neg then NegInfinity else PosInfinity)
         else
          (let I = takeWhile isDecimalDigit S;
               S = dropWhile isDecimalDigit S;
               dot = (S \<noteq> [] \<and> hd S = CHR ''.'');
               F = (if dot then takeWhile isDecimalDigit (tl S) else []);
               S = (if dot then dropWhile isDecimalDigit (tl S) else S)
           in if I = [] \<and> F = [] then FNaN
              else
               (let m = of_nat (decimalValue (I @ F)) / 10 ^ length F
                in Fin (scale10 (if neg then - m else m) (exponentPart S)))))"

subsection \<open>The state of the component\<close>

text \<open>
  \<^verbatim>\<open>interface NeuralNetworkConfig\<close>. The handler writes the configuration with a
  computed key, \<^verbatim>\<open>{ ...prev, [name]: n }\<close>, so an input named otherwise than the
  three fields would add a property; \<open>otherProps\<close> holds such properties. Nothing
  reads them.
\<close>

record NeuralNetworkConfig =
  inputNodes :: int
  hiddenLayers :: "int list"
  outputNodes :: int
  otherProps :: "string \<rightharpoonup> int"

text \<open>
  The two files: \<open>Plain\<close> is \<^verbatim>\<open>src/components/NeuralNetworkVisualizer.tsx\<close>,
  \<open>Named\<close> is the file with the diagram name.
\<close>

datatype variant = Plain | Named

text \<open>
  The \<^verbatim>\<open>useState\<close> cells. \<^verbatim>\<open>diagramName\<close> exists in \<open>Named\<close> only; in
  \<open>Plain\<close> the field is never written or read. \<^verbatim>\<open>renderKey\<close>, which an effect
  increments after a render in which \<^verbatim>\<open>config\<close> or \<^verbatim>\<open>speed\<close> changed and which
  is only the React key of the \<^verbatim>\<open>svg\<close> element, is left out.
\<close>

record state =
  config :: NeuralNetworkConfig
  speed :: float
  hiddenLayersInput :: string
  error :: "string option"
  diagramName :: string

definition initial :: state where
  "initial =
     \<lparr>config = \<lparr>inputNodes = 3, hiddenLayers = [4], outputNodes = 2, otherProps = Map.empty\<rparr>,
      speed = Fin 1,
      hiddenLayersInput = ''4'',
      error = None,
      diagramName = ''My Neural Network''\<rparr>"

subsection \<open>The event handler\<close>

definition errorMessage :: string where
  "errorMessage =
     ''Invalid hidden layers input. Please enter comma-separated numbers (e.g., 4,3,2) or leave empty.''"

text \<open>
  \<^verbatim>\<open>value.split(',').map(n => parseInt(n.trim())).filter(n => !isNaN(n))\<close>; what is
  left after the filter are integers.
\<close>

definition parsedLayers :: "string \<Rightarrow> int list" where
  "parsedLayers value =
     concat (map (\<lambda>n. case n of NaN \<Rightarrow> [] | Num i \<Rightarrow> [i])
       (filter (\<lambda>n. \<not> isNaN n) (map (\<lambda>n. parseInt (trim n)) (split value))))"

text \<open>\<^verbatim>\<open>parseInt(value) || 1\<close>: \<^verbatim>\<open>NaN\<close> and 0 are falsy.\<close>

definition orOne :: "number \<Rightarrow> int" where
  "orOne n = (case n of NaN \<Rightarrow> 1 | Num i \<Rightarrow> if i = 0 then 1 else i)"

text \<open>\<^verbatim>\<open>{ ...prev, [name]: n }\<close>, for a name other than \<^verbatim>\<open>hiddenLayers\<close>.\<close>

definition setProp :: "NeuralNetworkConfig \<Rightarrow> string \<Rightarrow> int \<Rightarrow> NeuralNetworkConfig" where
  "setProp prev name n =
     (if name = ''inputNodes'' then prev\<lparr>inputNodes := n\<rparr>
      else if name = ''outputNodes'' then prev\<lparr>outputNodes := n\<rparr>
      else prev\<lparr>otherProps := (otherProps prev)(name \<mapsto> n)\<rparr>)"

text \<open>
  \<^verbatim>\<open>handleInputChange\<close>; the event is the pair of \<^verbatim>\<open>e.target.name\<close> and
  \<^verbatim>\<open>e.target.value\<close>. The branch for \<^verbatim>\<open>diagramName\<close> is in \<open>Named\<close> only.
\<close>

definition handleInputChange :: "variant \<Rightarrow> state \<Rightarrow> string \<times> string \<Rightarrow> state" where
  "handleInputChange v s e =
     (case e of (name, value) \<Rightarrow>
        if name = ''hiddenLayers'' then
          (let s = s\<lparr>hiddenLayersInput := value\<rparr>;
               parsed = parsedLayers value
           in if length parsed = 0 \<and> value \<noteq> [] then s\<lparr>error := Some errorMessage\<rparr>
              else s\<lparr>error := None, config := (config s)\<lparr>hiddenLayers := parsed\<rparr>\<rparr>)
        else if name = ''speed'' then s\<lparr>speed := parseFloat value\<rparr>
        else if v = Named \<and> name = ''diagramName'' then s\<lparr>diagramName := value\<rparr>
        else s\<lparr>config := setProp (config s) name (max (orOne (parseInt value)) 1)\<rparr>)"

subsection \<open>The layout\<close>

text \<open>
  The component computes the layout in its body from \<^verbatim>\<open>config\<close>, at every render;
  each constant of the body is a function of the configuration here.
\<close>

definition layerDistance :: int where
  "layerDistance = 150"

definition neuronDistance :: int where
  "neuronDistance = 40"

definition layers :: "NeuralNetworkConfig \<Rightarrow> int list" where
  "layers cfg = [inputNodes cfg] @ hiddenLayers cfg @ [outputNodes cfg]"

definition width :: "NeuralNetworkConfig \<Rightarrow> int" where
  "width cfg = (int (length (layers cfg)) - 1) * layerDistance + 100"

text \<open>
  \<^verbatim>\<open>Math.max(...layers) * neuronDistance\<close>. The list starts with \<^verbatim>\<open>inputNodes\<close>,
  so the maximum is folded from there (the \<^verbatim>\<open>-Infinity\<close> of an empty argument list
  cannot arise).
\<close>

definition height :: "NeuralNetworkConfig \<Rightarrow> int" where
  "height cfg = foldl max (hd (layers cfg)) (tl (layers cfg)) * neuronDistance"

record neuron =
  neuron_x :: rat
  neuron_y :: rat

text \<open>The 30 pixels that the file with the diagram name adds to every \<^verbatim>\<open>y\<close>.\<close>

definition labelReserve :: "variant \<Rightarrow> int" where
  "labelReserve v = (case v of Plain \<Rightarrow> 0 | Named \<Rightarrow> 30)"

text \<open>
  \<^verbatim>\<open>Array.from({ length: nodeCount }, f)\<close> calls \<open>f\<close> on the indices below
  \<^verbatim>\<open>nodeCount\<close>; a length that is negative counts as 0, which \<open>nat\<close> does too.
\<close>

definition neurons :: "variant \<Rightarrow> NeuralNetworkConfig \<Rightarrow> neuron list list" where
  "neurons v cfg =
     map (\<lambda>(layerIndex, nodeCount).
            map (\<lambda>nodeIndex.
                   \<lparr>neuron_x = of_int (int layerIndex * layerDistance + 50),
                    neuron_y = of_int (int nodeIndex * neuronDistance)
                               + of_int (height cfg - (nodeCount - 1) * neuronDistance) / 2
                               + of_int (labelReserve v)\<rparr>)
                [0 ..< nat nodeCount])
         (enumerate 0 (layers cfg))"

text \<open>
  A connection; the key \<^verbatim>\<open>`${layerIndex}-${startIndex}-${endIndex}`\<close> is kept as the
  triple of the three indices.
\<close>

record connection =
  startX :: rat
  startY :: rat
  endX :: rat
  endY :: rat
  key :: "nat \<times> nat \<times> nat"

text \<open>
  \<^verbatim>\<open>layers.slice(0, -1)\<close> is the list without its last element. The indices
  \<open>layerIndex\<close> and \<open>layerIndex + 1\<close> are below the length of \<^verbatim>\<open>neurons\<close>.
\<close>

definition connections :: "variant \<Rightarrow> NeuralNetworkConfig \<Rightarrow> connection list" where
  "connections v cfg =
     concat (map (\<lambda>(layerIndex, _).
       concat (map (\<lambda>(startIndex, startNeuron).
         map (\<lambda>(endIndex, endNeuron).
                \<lparr>startX = neuron_x startNeuron, startY = neuron_y startNeuron,
                 endX = neuron_x endNeuron, endY = neuron_y endNeuron,
                 key = (layerIndex, startIndex, endIndex)\<rparr>)
             (enumerate 0 (neurons v cfg ! (layerIndex + 1))))
         (enumerate 0 (neurons v cfg ! layerIndex))))
       (enumerate 0 (butlast (layers cfg))))"

subsection \<open>What the component renders below the inputs\<close>

text \<open>
  The children of the \<^verbatim>\<open>svg\<close> element: the \<^verbatim>\<open>text\<close> with the diagram name (in
  \<open>Named\<close>), a \<^verbatim>\<open>Connection\<close> per connection, a \<^verbatim>\<open>Neuron\<close> per neuron and a
  \<^verbatim>\<open>DataFlow\<close> per connection, which gets the speed too. A \<^verbatim>\<open>DataFlow\<close> hands
  its keyframes and the duration \<^verbatim>\<open>2 / speed\<close> to the animation library, which moves
  the marker; the motion in time is not part of the embedding.
\<close>

datatype element =
  Text string
| Connection connection
| Neuron neuron
| DataFlow connection float

text \<open>
  Either the alert with the error, or the \<^verbatim>\<open>svg\<close> with its width, its height and
  its children.
\<close>

datatype view = Alert string | Svg int int "element list"

text \<open>
  \<^verbatim>\<open>{error ? alert : svg}\<close>: \<^verbatim>\<open>null\<close> and the empty string are falsy.
\<close>

definition truthy :: "string option \<Rightarrow> bool" where
  "truthy e = (case e of None \<Rightarrow> False | Some m \<Rightarrow> m \<noteq> [])"

definition render :: "variant \<Rightarrow> state \<Rightarrow> view" where
  "render v s =
     (if truthy (error s) then Alert (the (error s))
      else Svg (width (config s)) (height (config s) + labelReserve v)
             ((case v of Plain \<Rightarrow> [] | Named \<Rightarrow> [Text (diagramName s)])
              @ map Connection (connections v (config s))
              @ map Neuron (concat (neurons v (config s)))
              @ map (\<lambda>conn. DataFlow conn (speed s)) (connections v (config s))))"

text \<open>What a view shows, counted.\<close>

definition children :: "view \<Rightarrow> element list" where
  "children w = (case w of Alert _ \<Rightarrow> [] | Svg _ _ es \<Rightarrow> es)"

definition messages :: "view \<Rightarrow> string list" where
  "messages w = (case w of Alert m \<Rightarrow> [m] | Svg _ _ _ \<Rightarrow> [])"

definition isNeuron :: "element \<Rightarrow> bool" where
  "isNeuron e = (case e of Neuron _ \<Rightarrow> True | _ \<Rightarrow> False)"

definition isConnection :: "element \<Rightarrow> bool" where
  "isConnection e = (case e of Connection _ \<Rightarrow> True | _ \<Rightarrow> False)"

definition isDataFlow :: "element \<Rightarrow> bool" where
  "isDataFlow e = (case e of DataFlow _ _ \<Rightarrow> True | _ \<Rightarrow> False)"

subsection \<open>Notions used to state the properties\<close>

text \<open>
  The invariant of the configuration: every layer has at least one node (there are at
  least two layers by the shape of \<^verbatim>\<open>layers\<close>).
\<close>

definition wellFormed :: "NeuralNetworkConfig \<Rightarrow> bool" where
  "wellFormed cfg = (2 \<le> length (layers cfg) \<and> list_all (\<lambda>n. 1 \<le> n) (layers cfg))"

text \<open>
  The pairs of nodes of adjacent layers, as triples of the layer and the two node
  indices, in the order of the source's three nested loops; and the connection that
  the source builds for such a triple.
\<close>

definition pairs :: "NeuralNetworkConfig \<Rightarrow> (nat \<times> nat \<times> nat) list" where
  "pairs cfg =
     concat (map (\<lambda>i. concat (map (\<lambda>a. map (\<lambda>b. (i, a, b)) [0 ..< nat (layers cfg ! (i + 1))])
                                 [0 ..< nat (layers cfg ! i)]))
                 [0 ..< length (layers cfg) - 1])"

definition link :: "variant \<Rightarrow> NeuralNetworkConfig \<Rightarrow> nat \<times> nat \<times> nat \<Rightarrow> connection" where
  "link v cfg k =
     (case k of (i, a, b) \<Rightarrow>
        \<lparr>startX = neuron_x (neurons v cfg ! i ! a), startY = neuron_y (neurons v cfg ! i ! a),
         endX = neuron_x (neurons v cfg ! (i + 1) ! b),
         endY = neuron_y (neurons v cfg ! (i + 1) ! b),
         key = (i, a, b)\<rparr>)"

section \<open>Properties\<close>

subsection \<open>The handler, branch by branch\<close>

lemma handle_hidden:
  "handleInputChange v s (''hiddenLayers'', value) =
     (if parsedLayers value = [] \<and> value \<noteq> []
      then s\<lparr>hiddenLayersInput := value, error := Some errorMessage\<rparr>
      else s\<lparr>hiddenLayersInput := value, error := None,
             config := (config s)\<lparr>hiddenLayers := parsedLayers value\<rparr>\<rparr>)"
  by (simp add: handleInputChange_def Let_def)

lemma handle_speed:
  "handleInputChange v s (''speed'', value) = s\<lparr>speed := parseFloat value\<rparr>"
  by (simp add: handleInputChange_def)

lemma handle_diagramName:
  "handleInputChange Named s (''diagramName'', value) = s\<lparr>diagramName := value\<rparr>"
  by (simp add: handleInputChange_def)



lemma errorMessage_nonempty: "errorMessage \<noteq> []"
  by (simp add: errorMessage_def)

subsection \<open>Parsing the hidden layers\<close>

lemma parsedLayers_432: "parsedLayers ''4,3,2'' = [4, 3, 2]"
  by code_simp

lemma parsedLayers_4_blank_2: "parsedLayers ''4, ,2'' = [4, 2]"
  by code_simp

lemma parsedLayers_empty: "parsedLayers [] = []"
  by code_simp

lemma parsedLayers_abc: "parsedLayers ''abc'' = []"
  by code_simp

text \<open>
  Claim C3. The parse of the hidden-layers text maps \<^verbatim>\<open>"4,3,2"\<close> to \<open>[4, 3, 2]\<close> and
  \<^verbatim>\<open>"4, ,2"\<close> to \<open>[4, 2]\<close>, and the handler stores these lists; the empty text is
  parsed to the empty list, stored, and leaves no error, so that the diagram is
  rendered; \<^verbatim>\<open>"abc"\<close> is parsed to the empty list and sets the fixed error message,
  which is then what is rendered. This holds from every state, in both files.
\<close>

theorem C3_hidden_layers_examples:
  "parsedLayers ''4,3,2'' = [4, 3, 2]
   \<and> parsedLayers ''4, ,2'' = [4, 2]
   \<and> parsedLayers [] = []
   \<and> parsedLayers ''abc'' = []
   \<and> hiddenLayers (config (handleInputChange v s (''hiddenLayers'', ''4,3,2''))) = [4, 3, 2]
   \<and> hiddenLayers (config (handleInputChange v s (''hiddenLayers'', ''4, ,2''))) = [4, 2]
   \<and> hiddenLayers (config (handleInputChange v s (''hiddenLayers'', []))) = []
   \<and> error (handleInputChange v s (''hiddenLayers'', [])) = None
   \<and> messages (render v (handleInputChange v s (''hiddenLayers'', []))) = []
   \<and> error (handleInputChange v s (''hiddenLayers'', ''abc'')) = Some errorMessage
   \<and> render v (handleInputChange v s (''hiddenLayers'', ''abc'')) = Alert errorMessage"
  by (simp add: handle_hidden parsedLayers_432 parsedLayers_4_blank_2 parsedLayers_empty
      parsedLayers_abc render_def truthy_def messages_def errorMessage_nonempty)

subsection \<open>The layout\<close>







lemma length_neurons: "length (neurons v cfg) = length (layers cfg)"
  by (simp add: neurons_def)

lemma nth_neurons:
  "i < length (layers cfg) \<Longrightarrow>
     neurons v cfg ! i =
       map (\<lambda>nodeIndex.
              \<lparr>neuron_x = of_int (int i * layerDistance + 50),
               neuron_y = of_int (int nodeIndex * neuronDistance)
                          + of_int (height cfg - (layers cfg ! i - 1) * neuronDistance) / 2
                          + of_int (labelReserve v)\<rparr>)
           [0 ..< nat (layers cfg ! i)]"
  by (simp add: neurons_def nth_enumerate_eq)

lemma length_nth_neurons:
  "i < length (layers cfg) \<Longrightarrow> length (neurons v cfg ! i) = nat (layers cfg ! i)"
  by (simp add: nth_neurons)


lemma count_neurons: "length (concat (neurons v cfg)) = sum_list (map nat (layers cfg))"
proof -
  have "map length (neurons v cfg) = map nat (layers cfg)"
    by (rule nth_equalityI) (simp_all add: length_neurons length_nth_neurons)
  then show ?thesis
    by (simp add: length_concat)
qed


text \<open>The source's loops over the entries of a list, by index.\<close>

lemma map_enumerate:
  "map (\<lambda>(i, x). f i x) (enumerate 0 xs) = map (\<lambda>i. f i (xs ! i)) [0 ..< length xs]"
  by (rule nth_equalityI) (simp_all add: nth_enumerate_eq)

lemma connections_pairs: "connections v cfg = map (link v cfg) (pairs cfg)"
proof -
  have "connections v cfg =
     concat (map (\<lambda>i. concat (map (\<lambda>a. map (\<lambda>b. link v cfg (i, a, b))
                                      [0 ..< length (neurons v cfg ! (i + 1))])
                                 [0 ..< length (neurons v cfg ! i)]))
                 [0 ..< length (layers cfg) - 1])"
    by (simp add: connections_def map_enumerate link_def)
  also have "\<dots> = concat (map (\<lambda>i. concat (map (\<lambda>a. map (\<lambda>b. link v cfg (i, a, b))
                                      [0 ..< nat (layers cfg ! (i + 1))])
                                 [0 ..< nat (layers cfg ! i)]))
                 [0 ..< length (layers cfg) - 1])"
    by (rule arg_cong [where f = concat], rule map_cong) (auto simp add: length_nth_neurons)
  also have "\<dots> = map (link v cfg) (pairs cfg)"
    by (simp add: pairs_def map_concat comp_def)
  finally show ?thesis .
qed











subsection \<open>The edits of the fields\<close>

lemma handle_other_error:
  "name \<noteq> ''hiddenLayers'' \<Longrightarrow> error (handleInputChange v s (name, value)) = error s"
  by (simp add: handleInputChange_def)




lemma parsedLayers_zero: "parsedLayers ''0'' = [0]"
  by code_simp

lemma parsedLayers_minus_three: "parsedLayers ''-3'' = [- 3]"
  by code_simp

lemma parsedLayers_4: "parsedLayers ''4'' = [4]"
  by code_simp

lemma parsedLayers_xy: "parsedLayers ''x,y'' = []"
  by code_simp

text \<open>
  Where the invariant of the configuration is kept: by every edit of a field other
  than the hidden layers, and by an edit of the hidden layers when every parsed number
  is 1 or more. The handler does not look at the size of a parsed number.
\<close>

lemma wellFormed_other:
  "wellFormed (config s) \<Longrightarrow> name \<noteq> ''hiddenLayers'' \<Longrightarrow>
     wellFormed (config (handleInputChange v s (name, value)))"
  by (simp add: handleInputChange_def setProp_def wellFormed_def layers_def)

lemma wellFormed_hidden:
  "wellFormed (config s) \<Longrightarrow> list_all (\<lambda>n. 1 \<le> n) (parsedLayers value) \<Longrightarrow>
     wellFormed (config (handleInputChange v s (''hiddenLayers'', value)))"
  by (simp add: handle_hidden wellFormed_def layers_def)

text \<open>
  Claim C2. The claim is that every edit keeps all layer sizes at 1 or more, also an
  edit of the hidden-layers text to \<^verbatim>\<open>"0"\<close> or \<^verbatim>\<open>"-3"\<close>. The handler does not do
  that: from the initial state, the text \<^verbatim>\<open>"0"\<close> is accepted without an error and
  makes the layers \<open>[3, 0, 2]\<close>, and the text \<^verbatim>\<open>"-3"\<close> makes them \<open>[3, -3, 2]\<close>. The
  diagram is then drawn from these sizes, with five nodes and no connection.
\<close>

theorem C2_hidden_layer_of_size_zero:
  "error (handleInputChange v initial (''hiddenLayers'', ''0'')) = None
   \<and> layers (config (handleInputChange v initial (''hiddenLayers'', ''0''))) = [3, 0, 2]
   \<and> \<not> wellFormed (config (handleInputChange v initial (''hiddenLayers'', ''0'')))
   \<and> length (filter isNeuron
        (children (render v (handleInputChange v initial (''hiddenLayers'', ''0''))))) = 5
   \<and> filter isConnection
        (children (render v (handleInputChange v initial (''hiddenLayers'', ''0'')))) = []
   \<and> error (handleInputChange v initial (''hiddenLayers'', ''-3'')) = None
   \<and> layers (config (handleInputChange v initial (''hiddenLayers'', ''-3''))) = [3, - 3, 2]
   \<and> \<not> wellFormed (config (handleInputChange v initial (''hiddenLayers'', ''-3'')))"
proof -
  let ?s = "handleInputChange v initial (''hiddenLayers'', ''0'')"
  let ?t = "handleInputChange v initial (''hiddenLayers'', ''-3'')"
  have s: "?s = initial\<lparr>hiddenLayersInput := ''0'', error := None,
                        config := (config initial)\<lparr>hiddenLayers := [0]\<rparr>\<rparr>"
    by (simp add: handle_hidden parsedLayers_zero)
  have t: "?t = initial\<lparr>hiddenLayersInput := ''-3'', error := None,
                        config := (config initial)\<lparr>hiddenLayers := [- 3]\<rparr>\<rparr>"
    by (simp add: handle_hidden parsedLayers_minus_three)
  have es: "error ?s = None" and et: "error ?t = None"
    by (simp_all add: s t)
  have ls: "layers (config ?s) = [3, 0, 2]"
    unfolding s by (simp add: layers_def initial_def)
  have lt: "layers (config ?t) = [3, - 3, 2]"
    unfolding t by (simp add: layers_def initial_def)
  have view: "children (render v ?s)
                = (case v of Plain \<Rightarrow> [] | Named \<Rightarrow> [Text (diagramName ?s)])
                  @ map Connection (connections v (config ?s))
                  @ map Neuron (concat (neurons v (config ?s)))
                  @ map (\<lambda>conn. DataFlow conn (speed ?s)) (connections v (config ?s))"
    by (simp add: render_def children_def truthy_def es)
  have label: "filter isNeuron (case v of Plain \<Rightarrow> [] | Named \<Rightarrow> [Text (diagramName ?s)]) = []"
    "filter isConnection (case v of Plain \<Rightarrow> [] | Named \<Rightarrow> [Text (diagramName ?s)]) = []"
    by (cases v; simp add: isNeuron_def isConnection_def)+
  have none: "connections v (config ?s) = []"
    by (simp add: connections_pairs pairs_def ls)
  have five: "length (concat (neurons v (config ?s))) = 5"
    by (simp add: count_neurons ls)
  have nodes: "length (filter isNeuron (children (render v ?s))) = 5"
    by (simp add: view label none five isNeuron_def filter_map comp_def)
  have conns: "filter isConnection (children (render v ?s)) = []"
    by (simp add: view label none isConnection_def filter_map comp_def)
  show ?thesis
    using es et nodes conns by (simp add: ls lt wellFormed_def)
qed


text \<open>
  Claim C7. After an edit of the hidden-layers field the error is set exactly when the
  text is not empty and no number was parsed from it, and it is then the fixed message.
  In a state with this error the view is the alert with the one message, without any
  node, connection or animated marker. An edit of another field leaves the error as it
  is, and an edit of the hidden-layers field whose text is empty or gives a number
  clears it.
\<close>

theorem C7_error_iff_unparseable:
  "(error (handleInputChange v s (''hiddenLayers'', value)) \<noteq> None)
     = (value \<noteq> [] \<and> parsedLayers value = [])
   \<and> (error (handleInputChange v s (''hiddenLayers'', value)) \<noteq> None \<longrightarrow>
        error (handleInputChange v s (''hiddenLayers'', value)) = Some errorMessage)
   \<and> (error s = Some errorMessage \<longrightarrow>
        render v s = Alert errorMessage
        \<and> filter isNeuron (children (render v s)) = []
        \<and> filter isConnection (children (render v s)) = []
        \<and> filter isDataFlow (children (render v s)) = []
        \<and> messages (render v s) = [errorMessage])
   \<and> (name \<noteq> ''hiddenLayers'' \<longrightarrow> error (handleInputChange v s (name, value)) = error s)
   \<and> (value = [] \<or> parsedLayers value \<noteq> [] \<longrightarrow>
        error (handleInputChange v s (''hiddenLayers'', value)) = None)"
  by (auto simp add: handle_hidden handle_other_error render_def truthy_def
      errorMessage_nonempty children_def messages_def)

theorem C7_witness:
  "error (handleInputChange Plain initial (''hiddenLayers'', ''abc'')) = Some errorMessage
   \<and> render Plain (handleInputChange Plain initial (''hiddenLayers'', ''abc''))
       = Alert errorMessage
   \<and> error (handleInputChange Plain
        (handleInputChange Plain initial (''hiddenLayers'', ''abc'')) (''speed'', ''x,y''))
       = Some errorMessage
   \<and> error (handleInputChange Plain
        (handleInputChange Plain initial (''hiddenLayers'', ''abc'')) (''hiddenLayers'', ''x,y''))
       = Some errorMessage
   \<and> error (handleInputChange Plain
        (handleInputChange Plain initial (''hiddenLayers'', ''abc'')) (''hiddenLayers'', ''4''))
       = None"
proof -
  let ?s = "handleInputChange Plain initial (''hiddenLayers'', ''abc'')"
  have set: "error ?s = Some errorMessage"
    using C7_error_iff_unparseable [of Plain initial "''abc''" "''speed''"]
    by (simp add: parsedLayers_abc)
  have other: "''speed'' \<noteq> ''hiddenLayers''"
    by simp
  show ?thesis
    using set other
      C7_error_iff_unparseable [of Plain ?s "''x,y''" "''speed''"]
      C7_error_iff_unparseable [of Plain ?s "''4''" "''speed''"]
    by (simp add: parsedLayers_xy parsedLayers_4)
qed

text \<open>
  Claim C9. In the file with the diagram name, an edit of the name changes only the
  stored name: the configuration and with it every node position, the connections and
  both counts stay as they are, from every state and for every new name.
\<close>

theorem C9_diagram_name_keeps_layout:
  "handleInputChange Named s (''diagramName'', value) = s\<lparr>diagramName := value\<rparr>
   \<and> config (handleInputChange Named s (''diagramName'', value)) = config s
   \<and> neurons Named (config (handleInputChange Named s (''diagramName'', value)))
       = neurons Named (config s)
   \<and> connections Named (config (handleInputChange Named s (''diagramName'', value)))
       = connections Named (config s)
   \<and> length (concat (neurons Named (config (handleInputChange Named s (''diagramName'', value)))))
       = length (concat (neurons Named (config s)))
   \<and> length (connections Named (config (handleInputChange Named s (''diagramName'', value))))
       = length (connections Named (config s))
   \<and> filter (\<lambda>e. isNeuron e \<or> isConnection e \<or> isDataFlow e)
        (children (render Named (handleInputChange Named s (''diagramName'', value))))
       = filter (\<lambda>e. isNeuron e \<or> isConnection e \<or> isDataFlow e) (children (render Named s))"
  by (simp add: handle_diagramName render_def children_def isNeuron_def isConnection_def
      isDataFlow_def)

text \<open>
  Claim C10. An edit of the hidden-layers field whose text is not empty and gives no
  number changes the stored text and the error and nothing else: the configuration,
  with its hidden layers, its input nodes and its output nodes, is the one before the
  edit. When the next edit of the field gives the list of hidden layers that the
  configuration kept, the state is the one before the two edits but for the text, with
  no error, and the view is the diagram of that state.
\<close>

theorem C10_invalid_edit_keeps_config:
  "value \<noteq> [] \<and> parsedLayers value = [] \<Longrightarrow>
     handleInputChange v s (''hiddenLayers'', value)
       = s\<lparr>hiddenLayersInput := value, error := Some errorMessage\<rparr>
     \<and> config (handleInputChange v s (''hiddenLayers'', value)) = config s
     \<and> (\<forall>value'. parsedLayers value' = hiddenLayers (config s)
            \<and> (value' = [] \<or> parsedLayers value' \<noteq> []) \<longrightarrow>
          handleInputChange v (handleInputChange v s (''hiddenLayers'', value))
              (''hiddenLayers'', value')
            = s\<lparr>hiddenLayersInput := value', error := None\<rparr>
          \<and> render v (handleInputChange v (handleInputChange v s (''hiddenLayers'', value))
              (''hiddenLayers'', value')) = render v (s\<lparr>error := None\<rparr>))"
proof -
  assume bad: "value \<noteq> [] \<and> parsedLayers value = []"
  let ?s1 = "handleInputChange v s (''hiddenLayers'', value)"
  have s1: "?s1 = s\<lparr>hiddenLayersInput := value, error := Some errorMessage\<rparr>"
    using bad by (simp add: handle_hidden)
  have again: "handleInputChange v ?s1 (''hiddenLayers'', value')
                = s\<lparr>hiddenLayersInput := value', error := None\<rparr>"
    if "parsedLayers value' = hiddenLayers (config s)
        \<and> (value' = [] \<or> parsedLayers value' \<noteq> [])" for value'
    using that by (auto simp add: s1 handle_hidden)
  have same: "render v (s\<lparr>hiddenLayersInput := value', error := None\<rparr>)
                = render v (s\<lparr>error := None\<rparr>)" for value'
    by (cases v) (simp_all add: render_def)
  show ?thesis
  proof (intro conjI allI impI)
    show "?s1 = s\<lparr>hiddenLayersInput := value, error := Some errorMessage\<rparr>"
      by (rule s1)
    show "config ?s1 = config s"
      by (simp add: s1)
  next
    fix value'
    assume ok: "parsedLayers value' = hiddenLayers (config s)
                \<and> (value' = [] \<or> parsedLayers value' \<noteq> [])"
    show "handleInputChange v ?s1 (''hiddenLayers'', value')
            = s\<lparr>hiddenLayersInput := value', error := None\<rparr>"
      by (rule again [OF ok])
    show "render v (handleInputChange v ?s1 (''hiddenLayers'', value'))
            = render v (s\<lparr>error := None\<rparr>)"
      by (simp only: again [OF ok] same)
  qed
qed

theorem C10_witness:
  "handleInputChange Plain initial (''hiddenLayers'', ''abc'')
     = initial\<lparr>hiddenLayersInput := ''abc'', error := Some errorMessage\<rparr>
   \<and> config (handleInputChange Plain initial (''hiddenLayers'', ''abc'')) = config initial
   \<and> handleInputChange Plain (handleInputChange Plain initial (''hiddenLayers'', ''abc''))
       (''hiddenLayers'', ''4'')
     = initial\<lparr>hiddenLayersInput := ''4'', error := None\<rparr>"
proof -
  have bad: "''abc'' \<noteq> [] \<and> parsedLayers ''abc'' = []"
    by (simp add: parsedLayers_abc)
  have ok: "parsedLayers ''4'' = hiddenLayers (config initial)
            \<and> (''4'' = [] \<or> parsedLayers ''4'' \<noteq> [])"
    by (simp add: parsedLayers_4 initial_def)
  show ?thesis
    using C10_invalid_edit_keeps_config [OF bad, of Plain initial] ok
    by blast
qed

end
